theory Spec2Isabelle
  imports Main
begin

section \<open>Constants of the package\<close>

text \<open>
  The repository holds two versions of one Go package \<^verbatim>\<open>fcm\<close>: \<^verbatim>\<open>fcm.go\<close>
  (legacy protocol in \<^verbatim>\<open>sendOnce\<close>) and a second file that adds the versioned (v1)
  protocol to \<^verbatim>\<open>sendOnce\<close>. The constants, the message model, the setters and
  \<^verbatim>\<open>IsTimeout\<close> are the same text in both.
\<close>

definition MAX_TTL :: int where
  "MAX_TTL = 2419200"

definition Priority_HIGH :: string where
  "Priority_HIGH = ''high''"

definition Priority_NORMAL :: string where
  "Priority_NORMAL = ''normal''"

definition error_key :: string where
  "error_key = ''error''"

text \<open>
  \<^verbatim>\<open>retreyableErrors\<close> is a \<^verbatim>\<open>map[string]bool\<close>; indexing it at a key it does not
  hold gives Go's zero value \<^verbatim>\<open>false\<close>.
\<close>

definition retreyableErrors :: "string \<Rightarrow> bool" where
  "retreyableErrors v =
     (case map_of [(''Unavailable'', True), (''InternalServerError'', True)] v of
        Some b \<Rightarrow> b
      | None \<Rightarrow> False)"

section \<open>Data model\<close>

text \<open>
  A value of Go's \<^verbatim>\<open>interface{}\<close> as the package meets it. \<^verbatim>\<open>VMap\<close> is a
  \<^verbatim>\<open>map[string]interface{}\<close>, \<^verbatim>\<open>VSlice\<close> a \<^verbatim>\<open>[]interface{}\<close>, \<^verbatim>\<open>VStringMap\<close> a
  \<^verbatim>\<open>map[string]string\<close> (what \<^verbatim>\<open>NewFcmTopicMsg\<close> stores). A Go map is given by its
  entries in the order \<^verbatim>\<open>range\<close> visits them, which Go leaves unspecified. The type
  \<^typ>\<open>'n\<close> stands for \<^verbatim>\<open>float64\<close>: the package never computes with a number, it
  only hands it to the formatting library.
\<close>

datatype 'n go_value =
    VString string
  | VFloat64 'n
  | VBool bool
  | VNil
  | VSlice "'n go_value list"
  | VMap "(string \<times> 'n go_value) list"
  | VStringMap "(string \<times> string) list"

record NotificationPayload =
  Title :: string
  Body :: string
  Icon :: string
  Sound :: string
  Badge :: string
  Tag :: string
  Color :: string
  ClickAction :: string
  BodyLocKey :: string
  BodyLocArgs :: string
  TitleLocKey :: string
  TitleLocArgs :: string
  AndroidChannelID :: string

record 'n FcmMsg =
  Data :: "'n go_value"
  To :: string
  RegistrationIds :: "string list"
  CollapseKey :: string
  Priority :: string
  Notification :: NotificationPayload
  ContentAvailable :: bool
  DelayWhileIdle :: bool
  TimeToLive :: int
  RestrictedPackageName :: string
  DryRun :: bool
  Condition :: string

record GcmCredentialsV2 =
  Type :: string
  ProjectID :: string
  PrivateKeyID :: string
  PrivateKey :: string
  ClientEmail :: string
  ClientID :: string
  AuthURI :: string
  TokenURI :: string
  AuthProviderX509CertURL :: string
  ClientX509CertURL :: string

record FcmV1ErrorDetail =
  Type :: string
  ErrorCode :: string

record FcmV1Error =
  Code :: int
  Message :: string
  Status :: string
  Details :: "FcmV1ErrorDetail list"

record FcmV1Response =
  Name :: string
  Error :: FcmV1Error

text \<open>
  \<^verbatim>\<open>FcmClient\<close> starts with \<^verbatim>\<open>ApiKey\<close> and \<^verbatim>\<open>Message\<close> in both files; the fields
  after them differ. The setters touch \<^verbatim>\<open>Message\<close> only, so they are defined once, on
  every extension of the common part.
\<close>

record 'n FcmClient =
  ApiKey :: string
  Message :: "'n FcmMsg"

record 'n FcmClientV1 = "'n FcmClient" +
  UseV1Api :: bool
  V1ProjectID :: string
  gcmCredentialsV2 :: GcmCredentialsV2

record 'n FcmClientLegacy = "'n FcmClient" +
  UseV1API :: bool
  CredentialsJSON :: string

text \<open>
  \<^verbatim>\<open>Results\<close> is a \<^verbatim>\<open>[]map[string]string\<close>: a list of maps, each given by its
  entries. \<^verbatim>\<open>Err\<close> is a \<^verbatim>\<open>string\<close> in the v1 file and an \<^verbatim>\<open>interface{}\<close> in
  \<^verbatim>\<open>fcm.go\<close>, hence the type parameter.
\<close>

record 'e FcmResponseStatus =
  Ok :: bool
  StatusCode :: int
  MulticastId :: int
  Success :: int
  Fail :: int
  Canonical_ids :: int
  Results :: "(string \<times> string) list list"
  MsgId :: int
  Err :: 'e
  RetryAfter :: string

section \<open>Message setters\<close>

text \<open>
  A method on \<^verbatim>\<open>*FcmClient\<close> that ends with \<^verbatim>\<open>return this\<close> is a function from the
  client to the updated client.
\<close>

definition NewFcmMsgTo ::
  "string \<Rightarrow> 'n go_value \<Rightarrow> ('n, 'z) FcmClient_scheme \<Rightarrow> ('n, 'z) FcmClient_scheme" where
  "NewFcmMsgTo to body this = this\<lparr>Message := (Message this)\<lparr>To := to, Data := body\<rparr>\<rparr>"

definition NewFcmTopicMsg ::
  "string \<Rightarrow> (string \<times> string) list \<Rightarrow> ('n, 'z) FcmClient_scheme \<Rightarrow> ('n, 'z) FcmClient_scheme" where
  "NewFcmTopicMsg to body this = NewFcmMsgTo to (VStringMap body) this"

definition SetMsgData ::
  "'n go_value \<Rightarrow> ('n, 'z) FcmClient_scheme \<Rightarrow> ('n, 'z) FcmClient_scheme" where
  "SetMsgData body this = this\<lparr>Message := (Message this)\<lparr>Data := body\<rparr>\<rparr>"

definition SetPriority ::
  "string \<Rightarrow> ('n, 'z) FcmClient_scheme \<Rightarrow> ('n, 'z) FcmClient_scheme" where
  "SetPriority p this =
     (if p = Priority_HIGH
      then this\<lparr>Message := (Message this)\<lparr>Priority := Priority_HIGH\<rparr>\<rparr>
      else this\<lparr>Message := (Message this)\<lparr>Priority := Priority_NORMAL\<rparr>\<rparr>)"

definition SetCollapseKey ::
  "string \<Rightarrow> ('n, 'z) FcmClient_scheme \<Rightarrow> ('n, 'z) FcmClient_scheme" where
  "SetCollapseKey val this = this\<lparr>Message := (Message this)\<lparr>CollapseKey := val\<rparr>\<rparr>"

text \<open>
  \<^verbatim>\<open>SetNotificationPayload\<close> takes a pointer and dereferences it: on \<^verbatim>\<open>nil\<close> (here
  \<open>None\<close>) the call panics, and the result \<open>None\<close> stands for the panic.
\<close>

definition SetNotificationPayload ::
  "NotificationPayload option \<Rightarrow> ('n, 'z) FcmClient_scheme \<Rightarrow>
     ('n, 'z) FcmClient_scheme option" where
  "SetNotificationPayload payload this =
     (case payload of
        None \<Rightarrow> None
      | Some p \<Rightarrow> Some (this\<lparr>Message := (Message this)\<lparr>Notification := p\<rparr>\<rparr>))"

definition SetContentAvailable ::
  "bool \<Rightarrow> ('n, 'z) FcmClient_scheme \<Rightarrow> ('n, 'z) FcmClient_scheme" where
  "SetContentAvailable isContentAvailable this =
     this\<lparr>Message := (Message this)\<lparr>ContentAvailable := isContentAvailable\<rparr>\<rparr>"

definition SetDelayWhileIdle ::
  "bool \<Rightarrow> ('n, 'z) FcmClient_scheme \<Rightarrow> ('n, 'z) FcmClient_scheme" where
  "SetDelayWhileIdle isDelayWhileIdle this =
     this\<lparr>Message := (Message this)\<lparr>DelayWhileIdle := isDelayWhileIdle\<rparr>\<rparr>"

definition SetTimeToLive ::
  "int \<Rightarrow> ('n, 'z) FcmClient_scheme \<Rightarrow> ('n, 'z) FcmClient_scheme" where
  "SetTimeToLive ttl this =
     (if ttl > MAX_TTL
      then this\<lparr>Message := (Message this)\<lparr>TimeToLive := MAX_TTL\<rparr>\<rparr>
      else this\<lparr>Message := (Message this)\<lparr>TimeToLive := ttl\<rparr>\<rparr>)"

definition SetRestrictedPackageName ::
  "string \<Rightarrow> ('n, 'z) FcmClient_scheme \<Rightarrow> ('n, 'z) FcmClient_scheme" where
  "SetRestrictedPackageName pkg this =
     this\<lparr>Message := (Message this)\<lparr>RestrictedPackageName := pkg\<rparr>\<rparr>"

definition SetDryRun ::
  "bool \<Rightarrow> ('n, 'z) FcmClient_scheme \<Rightarrow> ('n, 'z) FcmClient_scheme" where
  "SetDryRun drun this = this\<lparr>Message := (Message this)\<lparr>DryRun := drun\<rparr>\<rparr>"

definition SetCondition ::
  "string \<Rightarrow> ('n, 'z) FcmClient_scheme \<Rightarrow> ('n, 'z) FcmClient_scheme" where
  "SetCondition condition this = this\<lparr>Message := (Message this)\<lparr>Condition := condition\<rparr>\<rparr>"

section \<open>Retry classifier\<close>

text \<open>
  \<^verbatim>\<open>IsTimeout\<close>: the outer loop runs over \<^verbatim>\<open>Results\<close>, the inner one over the entries
  of one result map; the first entry that passes the test returns \<^verbatim>\<open>true\<close>.
\<close>

definition IsTimeout :: "'e FcmResponseStatus \<Rightarrow> bool" where
  "IsTimeout this =
     (if StatusCode this \<ge> 500 then True
      else if StatusCode this = 200
      then list_ex (\<lambda>val. list_ex (\<lambda>(k, v). k = error_key \<and> retreyableErrors v = True) val)
             (Results this)
      else False)"

section \<open>Library and collaborators\<close>

text \<open>
  A Go \<^verbatim>\<open>error\<close> is an opaque value; the constructors name the call that returned it.
\<close>

datatype error =
    MarshalError | TokenError | RequestError | TransportError | ReadError
  | UnmarshalError | AtoiError

text \<open>\<^verbatim>\<open>%d\<close> of an \<^verbatim>\<open>int\<close>: the decimal digits, with a minus sign when negative.\<close>

definition digit_char :: "nat \<Rightarrow> char" where
  "digit_char d = ''0123456789'' ! (d mod 10)"

fun fmt_nat :: "nat \<Rightarrow> string" where
  "fmt_nat n = (if n < 10 then [digit_char n] else fmt_nat (n div 10) @ [digit_char n])"

definition fmt_d :: "int \<Rightarrow> string" where
  "fmt_d i = (if i < 0 then ''-'' @ fmt_nat (nat (- i)) else fmt_nat (nat i))"

text \<open>
  The functions of Go's standard library that the payload translator calls on data it
  does not inspect itself. They are parameters of the model:
  \<^item> \<open>sprint_v x\<close> is \<^verbatim>\<open>fmt.Sprintf("%v", x)\<close>;
  \<^item> \<open>json_Marshal x\<close> is \<^verbatim>\<open>json.Marshal(x)\<close>, the bytes or the error;
  \<^item> \<open>strconv_Atoi s\<close> is \<^verbatim>\<open>strconv.Atoi(s)\<close>, the number or the error.
\<close>

record 'n Lib =
  sprint_v :: "'n go_value \<Rightarrow> string"
  json_Marshal :: "'n go_value \<Rightarrow> error + string"
  strconv_Atoi :: "string \<Rightarrow> error + int"

section \<open>Payload translator\<close>

text \<open>
  The inner loop of \<^verbatim>\<open>flattenMap\<close> over a \<^verbatim>\<open>[]interface{}\<close>: element \<open>i\<close> is stored
  under \<^verbatim>\<open>fmt.Sprintf("%s.%d", fullKey, i)\<close>.
\<close>

definition flattenSlice ::
  "('n, 'w) Lib_scheme \<Rightarrow> string \<Rightarrow> 'n go_value list \<Rightarrow>
     (string \<rightharpoonup> string) \<Rightarrow> (string \<rightharpoonup> string)" where
  "flattenSlice L fullKey v output =
     fold (\<lambda>(i, elem) output. output(fullKey @ ''.'' @ fmt_d (int i) \<mapsto> sprint_v L elem))
       (enumerate 0 v) output"

text \<open>
  \<^verbatim>\<open>flattenMap\<close> writes into the map \<^verbatim>\<open>output\<close> it is given; the model returns the
  map after the writes. The \<^verbatim>\<open>default\<close> branch of the type switch takes every value
  that is not a string, a number, a slice or a map of \<^verbatim>\<open>interface{}\<close>.
\<close>

fun flattenMap ::
  "('n, 'w) Lib_scheme \<Rightarrow> string \<Rightarrow> (string \<times> 'n go_value) list \<Rightarrow>
     (string \<rightharpoonup> string) \<Rightarrow> (string \<rightharpoonup> string)" where
  "flattenMap L prefix input output =
     fold (\<lambda>(key, value) output.
        let fullKey = (if prefix \<noteq> '''' then prefix @ ''.'' @ key else key) in
        case value of
          VString v \<Rightarrow> output(fullKey \<mapsto> v)
        | VFloat64 v \<Rightarrow> output(fullKey \<mapsto> sprint_v L (VFloat64 v))
        | VSlice v \<Rightarrow> flattenSlice L fullKey v output
        | VMap v \<Rightarrow> flattenMap L fullKey v output
        | _ \<Rightarrow> output(fullKey \<mapsto> sprint_v L value))
       input output"

declare flattenMap.simps [simp del]

text \<open>\<^verbatim>\<open>safeString\<close> takes an \<^verbatim>\<open>interface{}\<close>.\<close>

fun safeString :: "'n go_value \<Rightarrow> string" where
  "safeString (VString str) = str"
| "safeString _ = ''''"

text \<open>
  The value \<^verbatim>\<open>convertToV1Message\<close> returns is a literal of nested maps with fixed
  keys; each level is a record whose fields are the keys of that level (\<open>m_\<close> for
  \<^verbatim>\<open>message\<close>, \<open>n_\<close> for \<^verbatim>\<open>message.notification\<close>, \<open>a_\<close> for \<^verbatim>\<open>message.android\<close>,
  \<open>an_\<close> for \<^verbatim>\<open>message.android.notification\<close>).
\<close>

record V1Notification =
  n_title :: string
  n_body :: string

record V1AndroidNotification =
  an_title :: string
  an_body :: string
  an_icon :: string
  an_color :: string
  an_sound :: string
  an_notification_count :: int
  an_tag :: string
  an_click_action :: string
  an_body_loc_key :: string
  an_body_loc_args :: string
  an_title_loc_key :: string
  an_title_loc_args :: string
  an_channel_id :: string

record V1Android =
  a_collapse_key :: string
  a_priority :: string
  a_ttl :: string
  a_restricted_package_name :: string
  a_data :: "string \<rightharpoonup> string"
  a_notification :: V1AndroidNotification

record V1MessageBody =
  m_token :: string
  m_notification :: V1Notification
  m_data :: "string \<rightharpoonup> string"
  m_android :: V1Android

record V1Payload =
  message :: V1MessageBody

definition convertToV1Message ::
  "('n, 'w) Lib_scheme \<Rightarrow> ('n, 'z) FcmClient_scheme \<Rightarrow> V1Payload" where
  "convertToV1Message L this =
     (let data = (case Data (Message this) of VMap m \<Rightarrow> m | _ \<Rightarrow> []);
          v1Data = flattenMap L '''' data Map.empty;
          stringifiedData = (case json_Marshal L (VMap data) of
                               Inr bytes \<Rightarrow> bytes
                             | Inl err \<Rightarrow> ''{}'');
          v1Data = v1Data(''data'' \<mapsto> stringifiedData);
          notification = Notification (Message this);
          title = safeString (VString (Title notification) :: 'n go_value);
          body = safeString (VString (Body notification) :: 'n go_value);
          title = (case map_of data ''alert'' of
                     Some (VString alert) \<Rightarrow> if alert \<noteq> '''' then alert else title
                   | _ \<Rightarrow> title);
          notification_badge = safeString (VString (Badge notification) :: 'n go_value);
          notification_count =
            (if notification_badge \<noteq> ''''
             then (case strconv_Atoi L notification_badge of
                     Inr n \<Rightarrow> n
                   | Inl notification_err \<Rightarrow> 0)
             else 0)
      in \<lparr>message = \<lparr>
            m_token = To (Message this),
            m_notification = \<lparr>n_title = title, n_body = body\<rparr>,
            m_data = v1Data,
            m_android = \<lparr>
              a_collapse_key = safeString (VString (CollapseKey (Message this)) :: 'n go_value),
              a_priority = safeString (VString (Priority (Message this)) :: 'n go_value),
              a_ttl = fmt_d (TimeToLive (Message this)) @ ''s'',
              a_restricted_package_name =
                safeString (VString (RestrictedPackageName (Message this)) :: 'n go_value),
              a_data = v1Data,
              a_notification = \<lparr>
                an_title = title,
                an_body = body,
                an_icon = safeString (VString (Icon notification) :: 'n go_value),
                an_color = safeString (VString (Color notification) :: 'n go_value),
                an_sound = safeString (VString (Sound notification) :: 'n go_value),
                an_notification_count = notification_count,
                an_tag = safeString (VString (Tag notification) :: 'n go_value),
                an_click_action = safeString (VString (ClickAction notification) :: 'n go_value),
                an_body_loc_key = safeString (VString (BodyLocKey notification) :: 'n go_value),
                an_body_loc_args = safeString (VString (BodyLocArgs notification) :: 'n go_value),
                an_title_loc_key = safeString (VString (TitleLocKey notification) :: 'n go_value),
                an_title_loc_args = safeString (VString (TitleLocArgs notification) :: 'n go_value),
                an_channel_id = safeString (VString (AndroidChannelID notification) :: 'n go_value)\<rparr>\<rparr>\<rparr>\<rparr>)"

section \<open>Transport and response normalizer\<close>

definition fcm_server_url :: string where
  "fcm_server_url = ''https://fcm.googleapis.com/fcm/send''"

text \<open>\<^verbatim>\<open>fmt.Sprintf(fcm_v1_server_url, projectID)\<close>, the format having one \<^verbatim>\<open>%s\<close>.\<close>

definition fcm_v1_server_url :: "string \<Rightarrow> string" where
  "fcm_v1_server_url projectID =
     ''https://fcm.googleapis.com/v1/projects/'' @ projectID @ ''/messages:send''"

definition retry_after_header :: string where
  "retry_after_header = ''Retry-After''"

record Request =
  Method :: string
  URL :: string
  ReqBody :: string
  ReqHeader :: "string \<rightharpoonup> string"

text \<open>
  What \<^verbatim>\<open>sendOnce\<close> reads of an \<^verbatim>\<open>*http.Response\<close>: the status code,
  \<^verbatim>\<open>Header.Get\<close> (the empty string for a header that is absent) and what
  \<^verbatim>\<open>ioutil.ReadAll\<close> makes of the body.
\<close>

record Response =
  RespStatusCode :: int
  RespHeaderGet :: "string \<Rightarrow> string"
  RespReadAll :: "error + string"

text \<open>
  The collaborators of \<^verbatim>\<open>sendOnce\<close>, added to the library:
  \<^item> \<open>marshal_payload\<close> and \<open>marshal_msg\<close> are \<^verbatim>\<open>json.Marshal\<close> at the v1 payload and at
    \<^verbatim>\<open>FcmMsg\<close> (\<^verbatim>\<open>toJsonByte\<close>);
  \<^item> \<open>fetch_token\<close> is the chain of calls of \<^verbatim>\<open>getToken\<close> (credentials to JSON, JWT
    configuration, token source), the access token or the first error;
  \<^item> \<open>http_NewRequest\<close> is \<^verbatim>\<open>http.NewRequest\<close>; on an error the request it returns is
    \<^verbatim>\<open>nil\<close>;
  \<^item> \<open>client_Do\<close> is \<^verbatim>\<open>client.Do\<close>;
  \<^item> \<open>json_Unmarshal_v1 body\<close> is \<^verbatim>\<open>json.Unmarshal(body, &v1Resp)\<close> on a fresh
    \<^verbatim>\<open>FcmV1Response\<close>;
  \<^item> \<open>json_Unmarshal_status body this\<close> is \<^verbatim>\<open>json.Unmarshal(body, &this)\<close>: the error, if
    any, and the status with the fields the decoder has assigned.
\<close>

record ('n, 'e) World = "'n Lib" +
  marshal_payload :: "V1Payload \<Rightarrow> error + string"
  marshal_msg :: "'n FcmMsg \<Rightarrow> error + string"
  fetch_token :: "GcmCredentialsV2 \<Rightarrow> error + string"
  http_NewRequest :: "string \<Rightarrow> string \<Rightarrow> string \<Rightarrow> error + Request"
  client_Do :: "Request \<Rightarrow> error + Response"
  json_Unmarshal_v1 :: "string \<Rightarrow> error + FcmV1Response"
  json_Unmarshal_status ::
    "string \<Rightarrow> 'e FcmResponseStatus \<Rightarrow> error option \<times> 'e FcmResponseStatus"

text \<open>
  \<^verbatim>\<open>new(FcmResponseStatus)\<close>: every field at its zero value; \<open>z\<close> is the zero value of
  the type of \<^verbatim>\<open>Err\<close>.
\<close>

definition new_FcmResponseStatus :: "'e \<Rightarrow> 'e FcmResponseStatus" where
  "new_FcmResponseStatus z =
     \<lparr>Ok = False, StatusCode = 0, MulticastId = 0, Success = 0, Fail = 0,
      Canonical_ids = 0, Results = [], MsgId = 0, Err = z, RetryAfter = ''''\<rparr>"

definition apiKeyHeader :: "('n, 'z) FcmClient_scheme \<Rightarrow> string" where
  "apiKeyHeader this = ''key='' @ ApiKey this"

definition getToken :: "('n, 'e, 'w) World_scheme \<Rightarrow> ('n, 'z) FcmClientV1_scheme \<Rightarrow> error + string" where
  "getToken W this = fetch_token W (gcmCredentialsV2 this)"

definition toJsonByte :: "('n, 'e, 'w) World_scheme \<Rightarrow> 'n FcmMsg \<Rightarrow> error + string" where
  "toJsonByte W this = marshal_msg W this"

text \<open>
  A method that assigns to the fields of \<^verbatim>\<open>this\<close> and returns an \<^verbatim>\<open>error\<close> gives the
  pair of the error (\<open>None\<close> for \<^verbatim>\<open>nil\<close>) and the status after the assignments.
\<close>

definition parseStatusBody ::
  "('n, 'e, 'w) World_scheme \<Rightarrow> string \<Rightarrow> 'e FcmResponseStatus \<Rightarrow>
     error option \<times> 'e FcmResponseStatus" where
  "parseStatusBody W body this =
     (case json_Unmarshal_status W body this of
        (Some err, this') \<Rightarrow> (Some err, this')
      | (None, this') \<Rightarrow> (None, this'))"

definition parseStatusBodyV1 ::
  "('n, string, 'w) World_scheme \<Rightarrow> string \<Rightarrow> string FcmResponseStatus \<Rightarrow>
     error option \<times> string FcmResponseStatus" where
  "parseStatusBodyV1 W body this =
     (case json_Unmarshal_v1 W body of
        Inl err \<Rightarrow> (Some err, this)
      | Inr v1Resp \<Rightarrow>
          (let this = this\<lparr>MulticastId := 0, Success := 0, Fail := 0,
                            Canonical_ids := 0, Results := []\<rparr>
           in if FcmV1Error.Message (Error v1Resp) \<noteq> ''''
              then (None,
                    this\<lparr>Fail := 1,
                         Results := Results this @ [[(''error'', Status (Error v1Resp))]],
                         Err := FcmV1Error.Message (Error v1Resp),
                         StatusCode := Code (Error v1Resp),
                         Ok := False\<rparr>)
              else (None,
                    this\<lparr>Success := 1,
                         Results := Results this @ [[(''message_id'', Name v1Resp)]],
                         MsgId := 1,
                         Ok := True,
                         StatusCode := 200\<rparr>)))"

text \<open>
  What a call of \<^verbatim>\<open>sendOnce\<close> ends in: the pair it returns, or a panic (the
  \<^verbatim>\<open>nil\<close> request of a failed \<^verbatim>\<open>http.NewRequest\<close>, whose error is not looked at,
  is dereferenced by \<^verbatim>\<open>request.Header.Set\<close>).
\<close>

datatype 'e outcome =
    Panics
  | Returns "'e FcmResponseStatus" "error option"

text \<open>
  \<^verbatim>\<open>sendOnce\<close> of the v1 file. The test of \<^verbatim>\<open>err\<close> that opens the v1 branch reads a
  variable that is still \<^verbatim>\<open>nil\<close>, so it has no branch here; the printing and logging
  calls have no effect on what is returned.
\<close>

definition sendOnce ::
  "('n, string, 'w) World_scheme \<Rightarrow> ('n, 'z) FcmClientV1_scheme \<Rightarrow> string outcome" where
  "sendOnce W this =
     (let fcmRespStatus = new_FcmResponseStatus '''';
          prepared =
            (if UseV1Api this
             then (let v1Message = convertToV1Message W this in
                   case marshal_payload W v1Message of
                     Inl err \<Rightarrow> Inl (Returns fcmRespStatus (Some err))
                   | Inr jsonByte \<Rightarrow>
                       (case getToken W this of
                          Inl err \<Rightarrow> Inl (Returns fcmRespStatus (Some err))
                        | Inr token \<Rightarrow>
                            (case http_NewRequest W ''POST''
                                    (fcm_v1_server_url (V1ProjectID this)) jsonByte of
                               Inl err \<Rightarrow> Inl Panics
                             | Inr request \<Rightarrow>
                                 Inr (request\<lparr>ReqHeader := (ReqHeader request)
                                        (''Authorization'' \<mapsto> ''Bearer '' @ token)\<rparr>))))
             else (case toJsonByte W (Message this) of
                     Inl err \<Rightarrow> Inl (Returns fcmRespStatus (Some err))
                   | Inr jsonByte \<Rightarrow>
                       (case http_NewRequest W ''POST'' fcm_server_url jsonByte of
                          Inl err \<Rightarrow> Inl Panics
                        | Inr request \<Rightarrow>
                            Inr (request\<lparr>ReqHeader := (ReqHeader request)
                                   (''Authorization'' \<mapsto> apiKeyHeader this)\<rparr>))))
      in case prepared of
           Inl stopped \<Rightarrow> stopped
         | Inr request \<Rightarrow>
             (let request = request\<lparr>ReqHeader := (ReqHeader request)
                              (''Content-Type'' \<mapsto> ''application/json'')\<rparr>
              in case client_Do W request of
                   Inl err \<Rightarrow> Returns fcmRespStatus (Some err)
                 | Inr response \<Rightarrow>
                     (case RespReadAll response of
                        Inl err \<Rightarrow> Returns fcmRespStatus (Some err)
                      | Inr body \<Rightarrow>
                          (let fcmRespStatus = fcmRespStatus
                                 \<lparr>StatusCode := RespStatusCode response,
                                  RetryAfter := RespHeaderGet response retry_after_header\<rparr>
                           in if RespStatusCode response \<noteq> 200
                              then (if UseV1Api this
                                    then (case parseStatusBodyV1 W body fcmRespStatus of
                                            (err, fcmRespStatus) \<Rightarrow>
                                              Returns (fcmRespStatus\<lparr>StatusCode := 200\<rparr>) err)
                                    else Returns fcmRespStatus None)
                              else (case (if UseV1Api this
                                          then parseStatusBodyV1 W body fcmRespStatus
                                          else parseStatusBody W body fcmRespStatus) of
                                      (Some err, fcmRespStatus) \<Rightarrow>
                                        Returns fcmRespStatus (Some err)
                                    | (None, fcmRespStatus) \<Rightarrow>
                                        Returns (fcmRespStatus\<lparr>Ok := True\<rparr>) None)))))"

text \<open>
  \<^verbatim>\<open>sendOnce\<close> of \<^verbatim>\<open>fcm.go\<close>, which speaks the legacy protocol only; there
  \<^verbatim>\<open>Err\<close> is an \<^verbatim>\<open>interface{}\<close>, whose zero value is \<^verbatim>\<open>nil\<close>.
\<close>

definition sendOnce_fcm_go ::
  "('n, 'n go_value, 'w) World_scheme \<Rightarrow> ('n, 'z) FcmClient_scheme \<Rightarrow> 'n go_value outcome" where
  "sendOnce_fcm_go W this =
     (let fcmRespStatus = new_FcmResponseStatus VNil in
      case toJsonByte W (Message this) of
        Inl err \<Rightarrow> Returns fcmRespStatus (Some err)
      | Inr jsonByte \<Rightarrow>
          (case http_NewRequest W ''POST'' fcm_server_url jsonByte of
             Inl err \<Rightarrow> Panics
           | Inr request \<Rightarrow>
               (let request = request\<lparr>ReqHeader := (ReqHeader request)
                                (''Authorization'' \<mapsto> apiKeyHeader this)\<rparr>;
                    request = request\<lparr>ReqHeader := (ReqHeader request)
                                (''Content-Type'' \<mapsto> ''application/json'')\<rparr>
                in case client_Do W request of
                     Inl err \<Rightarrow> Returns fcmRespStatus (Some err)
                   | Inr response \<Rightarrow>
                       (case RespReadAll response of
                          Inl err \<Rightarrow> Returns fcmRespStatus (Some err)
                        | Inr body \<Rightarrow>
                            (let fcmRespStatus = fcmRespStatus
                                   \<lparr>StatusCode := RespStatusCode response,
                                    RetryAfter := RespHeaderGet response retry_after_header\<rparr>
                             in if RespStatusCode response \<noteq> 200
                                then Returns fcmRespStatus None
                                else (case parseStatusBody W body fcmRespStatus of
                                        (Some err, fcmRespStatus) \<Rightarrow>
                                          Returns fcmRespStatus (Some err)
                                      | (None, fcmRespStatus) \<Rightarrow>
                                          Returns (fcmRespStatus\<lparr>Ok := True\<rparr>) None))))))"

text \<open>\<^verbatim>\<open>Send\<close> of the v1 file.\<close>

definition Send ::
  "('n, string, 'w) World_scheme \<Rightarrow> ('n, 'z) FcmClientV1_scheme \<Rightarrow> string outcome" where
  "Send W this = sendOnce W this"

section \<open>Client factory\<close>

text \<open>The zero values of the structs, as \<^verbatim>\<open>new\<close> gives them.\<close>

definition new_NotificationPayload :: NotificationPayload where
  "new_NotificationPayload =
     \<lparr>Title = '''', Body = '''', Icon = '''', Sound = '''', Badge = '''', Tag = '''',
      Color = '''', ClickAction = '''', BodyLocKey = '''', BodyLocArgs = '''',
      TitleLocKey = '''', TitleLocArgs = '''', AndroidChannelID = ''''\<rparr>"

definition new_FcmMsg :: "'n FcmMsg" where
  "new_FcmMsg =
     \<lparr>Data = VNil, To = '''', RegistrationIds = [], CollapseKey = '''', Priority = '''',
      Notification = new_NotificationPayload, ContentAvailable = False,
      DelayWhileIdle = False, TimeToLive = 0, RestrictedPackageName = '''',
      DryRun = False, Condition = ''''\<rparr>"

definition new_GcmCredentialsV2 :: GcmCredentialsV2 where
  "new_GcmCredentialsV2 =
     \<lparr>GcmCredentialsV2.Type = '''', ProjectID = '''', PrivateKeyID = '''', PrivateKey = '''',
      ClientEmail = '''', ClientID = '''', AuthURI = '''', TokenURI = '''',
      AuthProviderX509CertURL = '''', ClientX509CertURL = ''''\<rparr>"

text \<open>\<^verbatim>\<open>NewFcmClient\<close> of the v1 file.\<close>

definition NewFcmClient :: "string \<Rightarrow> GcmCredentialsV2 \<Rightarrow> 'n FcmClientV1" where
  "NewFcmClient apiKey gcmCredentials =
     (let fcmc = \<lparr>ApiKey = '''', Message = new_FcmMsg, UseV1Api = False,
                   V1ProjectID = '''', gcmCredentialsV2 = new_GcmCredentialsV2\<rparr>;
          fcmc = fcmc\<lparr>ApiKey := apiKey\<rparr>;
          fcmc = (if ProjectID gcmCredentials \<noteq> ''''
                  then fcmc\<lparr>UseV1Api := True, V1ProjectID := ProjectID gcmCredentials\<rparr>
                  else fcmc\<lparr>UseV1Api := False\<rparr>)
      in fcmc\<lparr>gcmCredentialsV2 := gcmCredentials\<rparr>)"

text \<open>\<^verbatim>\<open>NewFcmClient\<close> of \<^verbatim>\<open>fcm.go\<close>.\<close>

definition NewFcmClient_fcm_go :: "string \<Rightarrow> 'n FcmClientLegacy" where
  "NewFcmClient_fcm_go apiKey =
     (let fcmc = \<lparr>ApiKey = '''', Message = new_FcmMsg, UseV1API = False,
                   CredentialsJSON = ''''\<rparr>
      in fcmc\<lparr>ApiKey := apiKey\<rparr>)"

section \<open>Specification vocabulary\<close>

text \<open>
  The transport has answered a client that speaks the v1 protocol: the payload was
  serialized, a token was obtained, the request was built, \<^verbatim>\<open>client.Do\<close> returned
  \<open>response\<close> for it and its body was read as \<open>body\<close>.
\<close>

definition v1_exchange ::
  "('n, string, 'w) World_scheme \<Rightarrow> ('n, 'z) FcmClientV1_scheme \<Rightarrow> Response \<Rightarrow> string \<Rightarrow> bool" where
  "v1_exchange W this response body \<longleftrightarrow>
     UseV1Api this \<and>
     (\<exists>jsonByte token request.
        marshal_payload W (convertToV1Message W this) = Inr jsonByte \<and>
        getToken W this = Inr token \<and>
        http_NewRequest W ''POST'' (fcm_v1_server_url (V1ProjectID this)) jsonByte = Inr request \<and>
        client_Do W (request\<lparr>ReqHeader := (ReqHeader request)
                       (''Authorization'' \<mapsto> ''Bearer '' @ token,
                        ''Content-Type'' \<mapsto> ''application/json'')\<rparr>) = Inr response \<and>
        RespReadAll response = Inr body)"

text \<open>The same for the legacy protocol, whose request carries the API key.\<close>

definition legacy_exchange ::
  "('n, 'e, 'w) World_scheme \<Rightarrow> ('n, 'z) FcmClient_scheme \<Rightarrow> Response \<Rightarrow> string \<Rightarrow> bool" where
  "legacy_exchange W this response body \<longleftrightarrow>
     (\<exists>jsonByte request.
        toJsonByte W (Message this) = Inr jsonByte \<and>
        http_NewRequest W ''POST'' fcm_server_url jsonByte = Inr request \<and>
        client_Do W (request\<lparr>ReqHeader := (ReqHeader request)
                       (''Authorization'' \<mapsto> apiKeyHeader this,
                        ''Content-Type'' \<mapsto> ''application/json'')\<rparr>) = Inr response \<and>
        RespReadAll response = Inr body)"



section \<open>A sample world\<close>

text \<open>
  An instance of the library parameters, to run the model on the examples. It follows
  Go on the values the examples use: strings that JSON does not escape, numbers that are
  integers of magnitude below \<open>10\<^sup>6\<close> (given as \<^typ>\<open>int\<close>), booleans and \<^verbatim>\<open>nil\<close>;
  a map is written in the order of its entries, where Go sorts the keys, and
  \<open>sample_Atoi\<close> does not reject numbers beyond the range of \<^verbatim>\<open>int\<close>.
\<close>

definition quote :: "string \<Rightarrow> string" where
  "quote s = [CHR 0x22] @ s @ [CHR 0x22]"

fun join :: "string \<Rightarrow> string list \<Rightarrow> string" where
  "join sep [] = ''''"
| "join sep [x] = x"
| "join sep (x # y # ys) = x @ sep @ join sep (y # ys)"

fun sample_sprint_v :: "int go_value \<Rightarrow> string" where
  "sample_sprint_v (VString s) = s"
| "sample_sprint_v (VFloat64 n) = fmt_d n"
| "sample_sprint_v (VBool b) = (if b then ''true'' else ''false'')"
| "sample_sprint_v VNil = ''<nil>''"
| "sample_sprint_v (VSlice xs) = ''['' @ join '' '' (map sample_sprint_v xs) @ '']''"
| "sample_sprint_v (VMap kvs) =
     ''map['' @ join '' '' (map (\<lambda>(k, v). k @ '':'' @ sample_sprint_v v) kvs) @ '']''"
| "sample_sprint_v (VStringMap kvs) =
     ''map['' @ join '' '' (map (\<lambda>(k, v). k @ '':'' @ v) kvs) @ '']''"

fun sample_json :: "int go_value \<Rightarrow> string" where
  "sample_json (VString s) = quote s"
| "sample_json (VFloat64 n) = fmt_d n"
| "sample_json (VBool b) = (if b then ''true'' else ''false'')"
| "sample_json VNil = ''null''"
| "sample_json (VSlice xs) = ''['' @ join '','' (map sample_json xs) @ '']''"
| "sample_json (VMap kvs) =
     ''{'' @ join '','' (map (\<lambda>(k, v). quote k @ '':'' @ sample_json v) kvs) @ ''}''"
| "sample_json (VStringMap kvs) =
     ''{'' @ join '','' (map (\<lambda>(k, v). quote k @ '':'' @ quote v) kvs) @ ''}''"

definition sample_Atoi :: "string \<Rightarrow> error + int" where
  "sample_Atoi s =
     (let (neg, ds) = (case s of
                         [] \<Rightarrow> (False, s)
                       | c # cs \<Rightarrow> if c = CHR ''-'' then (True, cs)
                                   else if c = CHR ''+'' then (False, cs)
                                   else (False, s))
      in if ds = [] \<or> \<not> list_all (\<lambda>c. c \<in> set ''0123456789'') ds
         then Inl AtoiError
         else (let n = foldl (\<lambda>a c. 10 * a + (int (of_char c) - 48)) 0 ds
               in Inr (if neg then - n else n)))"

definition sample_lib :: "int Lib" where
  "sample_lib =
     \<lparr>sprint_v = sample_sprint_v,
      json_Marshal = (\<lambda>x. Inr (sample_json x)),
      strconv_Atoi = sample_Atoi\<rparr>"

text \<open>
  A world in which every step up to the transport succeeds, the transport answers every
  request with \<open>response\<close>, and the JSON decoder gives \<open>v1\<close> at the type
  \<^verbatim>\<open>FcmV1Response\<close> and acts as \<open>legacy\<close> on a \<^verbatim>\<open>FcmResponseStatus\<close>.
\<close>

definition sample_world ::
  "Response \<Rightarrow> error + FcmV1Response \<Rightarrow>
     ('e FcmResponseStatus \<Rightarrow> error option \<times> 'e FcmResponseStatus) \<Rightarrow> (int, 'e) World" where
  "sample_world response v1 legacy =
     \<lparr>sprint_v = sample_sprint_v,
      json_Marshal = (\<lambda>x. Inr (sample_json x)),
      strconv_Atoi = sample_Atoi,
      marshal_payload = (\<lambda>payload. Inr ''{}''),
      marshal_msg = (\<lambda>msg. Inr ''{}''),
      fetch_token = (\<lambda>credentials. Inr ''token''),
      http_NewRequest = (\<lambda>method url body.
         Inr \<lparr>Method = method, URL = url, ReqBody = body, ReqHeader = Map.empty\<rparr>),
      client_Do = (\<lambda>request. Inr response),
      json_Unmarshal_v1 = (\<lambda>body. v1),
      json_Unmarshal_status = (\<lambda>body. legacy)\<rparr>"

text \<open>A response with no \<^verbatim>\<open>Retry-After\<close> header.\<close>

definition sample_response :: "int \<Rightarrow> string \<Rightarrow> Response" where
  "sample_response code body =
     \<lparr>RespStatusCode = code, RespHeaderGet = (\<lambda>name. ''''), RespReadAll = Inr body\<rparr>"

text \<open>A decoder that finds nothing to assign and no error, as for the body \<^verbatim>\<open>{}\<close>.\<close>

definition decode_nothing :: "'e FcmResponseStatus \<Rightarrow> error option \<times> 'e FcmResponseStatus" where
  "decode_nothing this = (None, this)"

text \<open>
  What the decoder assigns for the legacy body
  \<^verbatim>\<open>{"success":0,"failure":1,"results":[{"error":"InvalidRegistration"}]}\<close>.
\<close>

definition decode_failure :: "'e FcmResponseStatus \<Rightarrow> error option \<times> 'e FcmResponseStatus" where
  "decode_failure this =
     (None, this\<lparr>Success := 0, Fail := 1,
                  Results := [[(''error'', ''InvalidRegistration'')]]\<rparr>)"

text \<open>Clients of the two files: a v1 client (project id set) and legacy ones.\<close>

definition sample_v1_client :: "int FcmClientV1" where
  "sample_v1_client =
     NewFcmMsgTo ''device'' (VMap [(''k'', VString ''v'')])
       (NewFcmClient ''key'' (new_GcmCredentialsV2\<lparr>ProjectID := ''p''\<rparr>))"

definition sample_legacy_client :: "int FcmClientV1" where
  "sample_legacy_client =
     NewFcmMsgTo ''device'' (VMap [(''k'', VString ''v'')])
       (NewFcmClient ''key'' new_GcmCredentialsV2)"

definition sample_fcm_go_client :: "int FcmClientLegacy" where
  "sample_fcm_go_client =
     NewFcmMsgTo ''device'' (VMap [(''k'', VString ''v'')]) (NewFcmClient_fcm_go ''key'')"


section \<open>Retry classifier: properties\<close>

lemma retreyableErrors_iff:
  "retreyableErrors v \<longleftrightarrow> v = ''Unavailable'' \<or> v = ''InternalServerError''"
  by (simp add: retreyableErrors_def)

text \<open>
  Claim C4. \<^verbatim>\<open>IsTimeout\<close> is true exactly when the status code is at least 500, or it
  is 200 and some map of \<^verbatim>\<open>Results\<close> has an entry with key \<^verbatim>\<open>"error"\<close> whose value is
  \<^verbatim>\<open>"Unavailable"\<close> or \<^verbatim>\<open>"InternalServerError"\<close>. So it is true at status 503, true at
  status 200 with results \<^verbatim>\<open>[{"error":"Unavailable"}]\<close>, and false at status 200 with
  results \<^verbatim>\<open>[{"error":"InvalidRegistration"}]\<close>.
\<close>

theorem IsTimeout_iff:
  "(IsTimeout this \<longleftrightarrow>
      StatusCode this \<ge> 500 \<or>
      (StatusCode this = 200 \<and>
       (\<exists>val \<in> set (Results this). \<exists>(k, v) \<in> set val.
           k = ''error'' \<and> (v = ''Unavailable'' \<or> v = ''InternalServerError''))))
   \<and> IsTimeout (this\<lparr>StatusCode := 503\<rparr>)
   \<and> IsTimeout (this\<lparr>StatusCode := 200, Results := [[(''error'', ''Unavailable'')]]\<rparr>)
   \<and> \<not> IsTimeout (this\<lparr>StatusCode := 200,
                          Results := [[(''error'', ''InvalidRegistration'')]]\<rparr>)"
  by (auto simp add: IsTimeout_def retreyableErrors_iff error_key_def list_ex_iff)

section \<open>Message setters: properties\<close>

text \<open>
  Claim C5. \<^verbatim>\<open>MAX_TTL\<close> is 2419200; \<^verbatim>\<open>SetTimeToLive\<close> stores \<^verbatim>\<open>MAX_TTL\<close> for a
  \<open>ttl\<close> above it and \<open>ttl\<close> itself otherwise, negative values included. Sending
  does not clamp again: the v1 payload carries the stored value, whatever it is, in
  decimal with the suffix \<^verbatim>\<open>s\<close>, and the legacy payload is the serialization of the
  stored message.
\<close>

theorem SetTimeToLive_clamps:
  "MAX_TTL = 2419200
   \<and> TimeToLive (Message (SetTimeToLive ttl this)) = (if ttl > MAX_TTL then MAX_TTL else ttl)
   \<and> a_ttl (m_android (message (convertToV1Message L this))) =
       fmt_d (TimeToLive (Message this)) @ ''s''
   \<and> a_ttl (m_android (message (convertToV1Message L (SetTimeToLive ttl this)))) =
       fmt_d (if ttl > MAX_TTL then MAX_TTL else ttl) @ ''s''
   \<and> toJsonByte W (Message (SetTimeToLive ttl this)) =
       marshal_msg W ((Message this)\<lparr>TimeToLive := (if ttl > MAX_TTL then MAX_TTL else ttl)\<rparr>)"
  by (simp add: MAX_TTL_def SetTimeToLive_def convertToV1Message_def Let_def toJsonByte_def)

text \<open>
  Claim C7, as the code has it. Every setter returns the client with one field of the
  message replaced and nothing else changed (\<^verbatim>\<open>SetNotificationPayload\<close> when the payload
  it is given is not \<^verbatim>\<open>nil\<close>). The value stored is the argument, with two exceptions:
  \<^verbatim>\<open>SetTimeToLive\<close> clamps, and \<^verbatim>\<open>SetPriority\<close> stores \<^verbatim>\<open>"high"\<close> for the argument
  \<^verbatim>\<open>"high"\<close> and \<^verbatim>\<open>"normal"\<close> for every other string.
\<close>

theorem setters_change_one_field:
  "SetMsgData body this = this\<lparr>Message := (Message this)\<lparr>Data := body\<rparr>\<rparr>
   \<and> SetPriority p this =
       this\<lparr>Message := (Message this)\<lparr>Priority := (if p = ''high'' then ''high'' else ''normal'')\<rparr>\<rparr>
   \<and> SetCollapseKey val this = this\<lparr>Message := (Message this)\<lparr>CollapseKey := val\<rparr>\<rparr>
   \<and> SetNotificationPayload (Some payload) this =
       Some (this\<lparr>Message := (Message this)\<lparr>Notification := payload\<rparr>\<rparr>)
   \<and> SetContentAvailable isContentAvailable this =
       this\<lparr>Message := (Message this)\<lparr>ContentAvailable := isContentAvailable\<rparr>\<rparr>
   \<and> SetDelayWhileIdle isDelayWhileIdle this =
       this\<lparr>Message := (Message this)\<lparr>DelayWhileIdle := isDelayWhileIdle\<rparr>\<rparr>
   \<and> SetTimeToLive ttl this =
       this\<lparr>Message := (Message this)\<lparr>TimeToLive := (if ttl > 2419200 then 2419200 else ttl)\<rparr>\<rparr>
   \<and> SetRestrictedPackageName pkg this =
       this\<lparr>Message := (Message this)\<lparr>RestrictedPackageName := pkg\<rparr>\<rparr>
   \<and> SetDryRun drun this = this\<lparr>Message := (Message this)\<lparr>DryRun := drun\<rparr>\<rparr>
   \<and> SetCondition condition this = this\<lparr>Message := (Message this)\<lparr>Condition := condition\<rparr>\<rparr>"
  by (simp add: SetMsgData_def SetPriority_def SetCollapseKey_def SetNotificationPayload_def
      SetContentAvailable_def SetDelayWhileIdle_def SetTimeToLive_def
      SetRestrictedPackageName_def SetDryRun_def SetCondition_def
      Priority_HIGH_def Priority_NORMAL_def MAX_TTL_def)

text \<open>
  Claim C7 as stated fails: \<^verbatim>\<open>SetPriority("urgent")\<close> on a fresh client does not
  store \<^verbatim>\<open>"urgent"\<close>.
\<close>

theorem SetPriority_not_stored_unchanged:
  "Priority (Message (SetPriority ''urgent''
      (NewFcmClient ''key'' new_GcmCredentialsV2 :: int FcmClientV1))) \<noteq> ''urgent''"
  by (simp add: SetPriority_def NewFcmClient_def Priority_HIGH_def Priority_NORMAL_def)

section \<open>Transport: what \<^verbatim>\<open>sendOnce\<close> does once the transport has answered\<close>

lemma sendOnce_v1_answered:
  assumes "v1_exchange W this response body"
  shows "sendOnce W this =
     (let st = (new_FcmResponseStatus '''')
                 \<lparr>StatusCode := RespStatusCode response,
                  RetryAfter := RespHeaderGet response retry_after_header\<rparr>
      in if RespStatusCode response \<noteq> 200
         then (case parseStatusBodyV1 W body st of
                 (err, st') \<Rightarrow> Returns (st'\<lparr>StatusCode := 200\<rparr>) err)
         else (case parseStatusBodyV1 W body st of
                 (Some err, st') \<Rightarrow> Returns st' (Some err)
               | (None, st') \<Rightarrow> Returns (st'\<lparr>Ok := True\<rparr>) None))"
  using assms unfolding v1_exchange_def sendOnce_def
  by (auto simp add: Let_def)

lemma sendOnce_legacy_answered:
  assumes "\<not> UseV1Api this" and "legacy_exchange W this response body"
  shows "sendOnce W this =
     (let st = (new_FcmResponseStatus '''')
                 \<lparr>StatusCode := RespStatusCode response,
                  RetryAfter := RespHeaderGet response retry_after_header\<rparr>
      in if RespStatusCode response \<noteq> 200
         then Returns st None
         else (case parseStatusBody W body st of
                 (Some err, st') \<Rightarrow> Returns st' (Some err)
               | (None, st') \<Rightarrow> Returns (st'\<lparr>Ok := True\<rparr>) None))"
  using assms unfolding legacy_exchange_def sendOnce_def
  by (auto simp add: Let_def)

lemma sendOnce_fcm_go_answered:
  assumes "legacy_exchange W this response body"
  shows "sendOnce_fcm_go W this =
     (let st = (new_FcmResponseStatus VNil)
                 \<lparr>StatusCode := RespStatusCode response,
                  RetryAfter := RespHeaderGet response retry_after_header\<rparr>
      in if RespStatusCode response \<noteq> 200
         then Returns st None
         else (case parseStatusBody W body st of
                 (Some err, st') \<Rightarrow> Returns st' (Some err)
               | (None, st') \<Rightarrow> Returns (st'\<lparr>Ok := True\<rparr>) None))"
  using assms unfolding legacy_exchange_def sendOnce_fcm_go_def
  by (auto simp add: Let_def)

text \<open>The sample world answers the sample clients.\<close>

lemma sample_v1_exchange:
  "v1_exchange (sample_world (sample_response code body) v1 legacy) sample_v1_client
     (sample_response code body) body"
  unfolding v1_exchange_def
  by (simp add: sample_world_def sample_response_def sample_v1_client_def NewFcmMsgTo_def
      NewFcmClient_def Let_def getToken_def)

lemma sample_legacy_exchange:
  "legacy_exchange (sample_world (sample_response code body) v1 legacy) sample_legacy_client
     (sample_response code body) body"
  unfolding legacy_exchange_def
  by (simp add: sample_world_def sample_response_def toJsonByte_def)

lemma sample_fcm_go_exchange:
  "legacy_exchange (sample_world (sample_response code body) v1 legacy) sample_fcm_go_client
     (sample_response code body) body"
  unfolding legacy_exchange_def
  by (simp add: sample_world_def sample_response_def toJsonByte_def)

lemma sample_clients_flags:
  "UseV1Api sample_v1_client" "\<not> UseV1Api sample_legacy_client"
  by (simp_all add: sample_v1_client_def sample_legacy_client_def NewFcmMsgTo_def
      NewFcmClient_def Let_def new_GcmCredentialsV2_def)

section \<open>Response normalizer: properties\<close>

text \<open>
  The versioned error path when the transport status is not 200: the status is
  renormalized to 200 and \<^verbatim>\<open>Ok\<close> stays false.
\<close>

lemma sendOnce_v1_error_renormalized:
  assumes "v1_exchange W this response body"
      and "RespStatusCode response \<noteq> 200"
      and "json_Unmarshal_v1 W body = Inr v1Resp"
      and "FcmV1Error.Message (Error v1Resp) \<noteq> ''''"
  shows "sendOnce W this =
     Returns \<lparr>Ok = False, StatusCode = 200, MulticastId = 0, Success = 0, Fail = 1,
              Canonical_ids = 0, Results = [[(''error'', Status (Error v1Resp))]],
              MsgId = 0, Err = FcmV1Error.Message (Error v1Resp),
              RetryAfter = RespHeaderGet response ''Retry-After''\<rparr> None"
  using assms(2-4)
  by (simp add: sendOnce_v1_answered [OF assms(1)] parseStatusBodyV1_def
      new_FcmResponseStatus_def retry_after_header_def Let_def)

text \<open>
  Claim C1 at the input where the code departs from it. The transport status is 200 and
  the body is the versioned error object of the specification's example. Then
  \<^verbatim>\<open>parseStatusBodyV1\<close> sets \<^verbatim>\<open>Ok\<close> to false and \<^verbatim>\<open>StatusCode\<close> to the error's code,
  and \<^verbatim>\<open>sendOnce\<close>, on its status-200 path, sets \<^verbatim>\<open>Ok\<close> to true and leaves the status
  code alone: the call returns \<^verbatim>\<open>Ok = true\<close> and \<^verbatim>\<open>StatusCode = 404\<close>, where the claim
  has \<^verbatim>\<open>ok = false\<close> and \<^verbatim>\<open>httpStatusCode = 200\<close>.
\<close>

theorem sendOnce_v1_error_at_status_200:
  \<open>sendOnce
     (sample_world
        (sample_response 200
           ''{"error":{"code":404,"message":"Requested entity was not found.","status":"NOT_FOUND"}}'')
        (Inr \<lparr>Name = '''',
              Error = \<lparr>Code = 404, Message = ''Requested entity was not found.'',
                       Status = ''NOT_FOUND'', Details = []\<rparr>\<rparr>)
        decode_nothing)
     sample_v1_client =
   Returns \<lparr>Ok = True, StatusCode = 404, MulticastId = 0, Success = 0, Fail = 1,
            Canonical_ids = 0, Results = [[(''error'', ''NOT_FOUND'')]],
            MsgId = 0, Err = ''Requested entity was not found.'', RetryAfter = ''''\<rparr> None\<close>
  by (subst sendOnce_v1_answered [OF sample_v1_exchange])
     (simp add: parseStatusBodyV1_def new_FcmResponseStatus_def Let_def sample_world_def
        sample_response_def retry_after_header_def)

text \<open>
  Claim C3. When the transport has answered a v1 client, whatever the status, and the
  body decodes to a response whose \<^verbatim>\<open>error.message\<close> is empty, \<^verbatim>\<open>sendOnce\<close> returns no
  error and a status with \<^verbatim>\<open>Success = 1\<close>, the one result \<^verbatim>\<open>{"message_id": name}\<close>,
  \<^verbatim>\<open>MsgId = 1\<close>, \<^verbatim>\<open>Ok = true\<close> and \<^verbatim>\<open>StatusCode = 200\<close>; the other counters are zero.
\<close>

theorem sendOnce_v1_success:
  assumes "v1_exchange W this response body"
      and "json_Unmarshal_v1 W body = Inr v1Resp"
      and "FcmV1Error.Message (Error v1Resp) = ''''"
  shows "sendOnce W this =
     Returns \<lparr>Ok = True, StatusCode = 200, MulticastId = 0, Success = 1, Fail = 0,
              Canonical_ids = 0, Results = [[(''message_id'', Name v1Resp)]],
              MsgId = 1, Err = '''',
              RetryAfter = RespHeaderGet response ''Retry-After''\<rparr> None"
  using assms(2-3)
  by (simp add: sendOnce_v1_answered [OF assms(1)] parseStatusBodyV1_def
      new_FcmResponseStatus_def retry_after_header_def Let_def)

text \<open>The specification's example: the body \<^verbatim>\<open>{"name":"projects/p/messages/123"}\<close>.\<close>

theorem sendOnce_v1_success_witness:
  \<open>sendOnce
     (sample_world (sample_response 200 ''{"name":"projects/p/messages/123"}'')
        (Inr \<lparr>Name = ''projects/p/messages/123'',
              Error = \<lparr>Code = 0, Message = '''', Status = '''', Details = []\<rparr>\<rparr>)
        decode_nothing)
     sample_v1_client =
   Returns \<lparr>Ok = True, StatusCode = 200, MulticastId = 0, Success = 1, Fail = 0,
            Canonical_ids = 0, Results = [[(''message_id'', ''projects/p/messages/123'')]],
            MsgId = 1, Err = '''', RetryAfter = ''''\<rparr> None\<close>
proof -
  let ?v1 = "\<lparr>Name = ''projects/p/messages/123'',
              Error = \<lparr>Code = 0, Message = '''', Status = '''', Details = []\<rparr>\<rparr>"
  have decoded: "json_Unmarshal_v1 (sample_world r (Inr ?v1) decode_nothing) b = Inr ?v1"
    for r b
    by (simp add: sample_world_def)
  show ?thesis
    using sendOnce_v1_success [OF sample_v1_exchange decoded]
    by (simp add: sample_response_def)
qed

lemma legacy_exchange_decoder_update:
  "legacy_exchange (W\<lparr>json_Unmarshal_status := d\<rparr>) this response body =
   legacy_exchange W this response body"
  by (simp add: legacy_exchange_def toJsonByte_def)

text \<open>
  Claim C8. When the transport has answered a legacy client with a status other than
  200, \<^verbatim>\<open>sendOnce\<close> (of either file) returns no error and the zero status with only
  \<^verbatim>\<open>StatusCode\<close> and \<^verbatim>\<open>RetryAfter\<close> set, so \<^verbatim>\<open>Ok\<close> is false. The body is not decoded:
  the result is the same for every body, the empty one included, and for every decoder
  put in the place of \<^verbatim>\<open>json.Unmarshal\<close>.
\<close>

theorem legacy_non200_not_parsed:
  "(\<not> UseV1Api this \<and> legacy_exchange W this response body \<and> RespStatusCode response \<noteq> 200
      \<longrightarrow> sendOnce (W\<lparr>json_Unmarshal_status := decoder\<rparr>) this =
          Returns \<lparr>Ok = False, StatusCode = RespStatusCode response, MulticastId = 0,
                   Success = 0, Fail = 0, Canonical_ids = 0, Results = [], MsgId = 0,
                   Err = '''', RetryAfter = RespHeaderGet response ''Retry-After''\<rparr> None)
   \<and> (legacy_exchange W' this' response' body' \<and> RespStatusCode response' \<noteq> 200
      \<longrightarrow> sendOnce_fcm_go (W'\<lparr>json_Unmarshal_status := decoder'\<rparr>) this' =
          Returns \<lparr>Ok = False, StatusCode = RespStatusCode response', MulticastId = 0,
                   Success = 0, Fail = 0, Canonical_ids = 0, Results = [], MsgId = 0,
                   Err = VNil, RetryAfter = RespHeaderGet response' ''Retry-After''\<rparr> None)"
proof -
  have a: "sendOnce (W\<lparr>json_Unmarshal_status := decoder\<rparr>) this =
          Returns \<lparr>Ok = False, StatusCode = RespStatusCode response, MulticastId = 0,
                   Success = 0, Fail = 0, Canonical_ids = 0, Results = [], MsgId = 0,
                   Err = '''', RetryAfter = RespHeaderGet response ''Retry-After''\<rparr> None"
    if "\<not> UseV1Api this" "legacy_exchange W this response body"
       "RespStatusCode response \<noteq> 200"
  proof -
    have "legacy_exchange (W\<lparr>json_Unmarshal_status := decoder\<rparr>) this response body"
      using that(2) by (simp only: legacy_exchange_decoder_update)
    from sendOnce_legacy_answered [OF _ this] that(1,3) show ?thesis
      by (simp add: new_FcmResponseStatus_def retry_after_header_def Let_def)
  qed
  have b: "sendOnce_fcm_go (W'\<lparr>json_Unmarshal_status := decoder'\<rparr>) this' =
          Returns \<lparr>Ok = False, StatusCode = RespStatusCode response', MulticastId = 0,
                   Success = 0, Fail = 0, Canonical_ids = 0, Results = [], MsgId = 0,
                   Err = VNil, RetryAfter = RespHeaderGet response' ''Retry-After''\<rparr> None"
    if "legacy_exchange W' this' response' body'" "RespStatusCode response' \<noteq> 200"
  proof -
    have "legacy_exchange (W'\<lparr>json_Unmarshal_status := decoder'\<rparr>) this' response' body'"
      using that(1) by (simp only: legacy_exchange_decoder_update)
    from sendOnce_fcm_go_answered [OF this] that(2) show ?thesis
      by (simp add: new_FcmResponseStatus_def retry_after_header_def Let_def)
  qed
  from a b show ?thesis by blast
qed

text \<open>A status 503 with an empty body, and a decoder that would report a failure.\<close>

theorem legacy_non200_not_parsed_witness:
  "sendOnce
     ((sample_world (sample_response 503 '''') (Inl UnmarshalError) decode_nothing)
        \<lparr>json_Unmarshal_status := (\<lambda>body. decode_failure)\<rparr>)
     sample_legacy_client =
   Returns \<lparr>Ok = False, StatusCode = 503, MulticastId = 0, Success = 0, Fail = 0,
            Canonical_ids = 0, Results = [], MsgId = 0, Err = '''', RetryAfter = ''''\<rparr> None
   \<and> sendOnce_fcm_go
     ((sample_world (sample_response 503 '''') (Inl UnmarshalError) decode_nothing)
        \<lparr>json_Unmarshal_status := (\<lambda>body. decode_failure)\<rparr>)
     sample_fcm_go_client =
   Returns \<lparr>Ok = False, StatusCode = 503, MulticastId = 0, Success = 0, Fail = 0,
            Canonical_ids = 0, Results = [], MsgId = 0, Err = VNil, RetryAfter = ''''\<rparr> None"
proof -
  let ?W = "sample_world (sample_response 503 []) (Inl UnmarshalError) decode_nothing"
  have code: "RespStatusCode (sample_response 503 b) \<noteq> 200"
             "RespStatusCode (sample_response 503 b) = 503"
             "RespHeaderGet (sample_response 503 b) h = []" for b h
    by (simp_all add: sample_response_def)
  have ex1: "legacy_exchange ?W sample_legacy_client (sample_response 503 []) []"
    by (rule sample_legacy_exchange)
  have ex2: "legacy_exchange ?W sample_fcm_go_client (sample_response 503 []) []"
    by (rule sample_fcm_go_exchange)
  show ?thesis
    using legacy_non200_not_parsed
      [where this = sample_legacy_client and W = ?W
         and response = "sample_response 503 []" and body = "[]"
         and decoder = "\<lambda>body. decode_failure"
         and this' = sample_fcm_go_client and W' = ?W
         and response' = "sample_response 503 []" and body' = "[]"
         and decoder' = "\<lambda>body. decode_failure"]
    by (simp add: code sample_clients_flags(2) ex1 ex2)
qed

lemma sendOnce_Ok_only_if:
  assumes "sendOnce W this = Returns st None" and "Ok st"
  shows "\<exists>response body.
           if UseV1Api this
           then v1_exchange W this response body \<and>
                (\<exists>v1Resp. json_Unmarshal_v1 W body = Inr v1Resp \<and>
                   (RespStatusCode response \<noteq> 200 \<longrightarrow>
                      FcmV1Error.Message (Error v1Resp) = ''''))
           else legacy_exchange W this response body \<and> RespStatusCode response = 200 \<and>
                fst (json_Unmarshal_status W body
                       ((new_FcmResponseStatus '''')
                          \<lparr>StatusCode := 200,
                           RetryAfter := RespHeaderGet response ''Retry-After''\<rparr>)) = None"
  using assms unfolding sendOnce_def v1_exchange_def legacy_exchange_def
  by (auto simp add: Let_def parseStatusBodyV1_def parseStatusBody_def new_FcmResponseStatus_def
      retry_after_header_def
      split: sum.splits prod.splits option.splits if_splits)

lemma sendOnce_fcm_go_Ok_only_if:
  assumes "sendOnce_fcm_go W this = Returns st None" and "Ok st"
  shows "\<exists>response body.
           legacy_exchange W this response body \<and> RespStatusCode response = 200 \<and>
           fst (json_Unmarshal_status W body
                  ((new_FcmResponseStatus VNil)
                     \<lparr>StatusCode := 200,
                      RetryAfter := RespHeaderGet response ''Retry-After''\<rparr>)) = None"
  using assms unfolding sendOnce_fcm_go_def legacy_exchange_def
  by (auto simp add: Let_def parseStatusBody_def new_FcmResponseStatus_def
      retry_after_header_def
      split: sum.splits prod.splits option.splits if_splits)

lemma sendOnce_legacy_200:
  assumes "\<not> UseV1Api this" and "legacy_exchange W this response body"
      and "RespStatusCode response = 200"
      and "json_Unmarshal_status W body
             ((new_FcmResponseStatus '''')
                \<lparr>StatusCode := 200,
                 RetryAfter := RespHeaderGet response ''Retry-After''\<rparr>) = (None, decoded)"
  shows "sendOnce W this = Returns (decoded\<lparr>Ok := True\<rparr>) None"
  using assms(3,4)
  by (simp add: sendOnce_legacy_answered [OF assms(1,2)] parseStatusBody_def
      retry_after_header_def Let_def)

lemma sendOnce_fcm_go_200:
  assumes "legacy_exchange W this response body"
      and "RespStatusCode response = 200"
      and "json_Unmarshal_status W body
             ((new_FcmResponseStatus VNil)
                \<lparr>StatusCode := 200,
                 RetryAfter := RespHeaderGet response ''Retry-After''\<rparr>) = (None, decoded)"
  shows "sendOnce_fcm_go W this = Returns (decoded\<lparr>Ok := True\<rparr>) None"
  using assms(2,3)
  by (simp add: sendOnce_fcm_go_answered [OF assms(1)] parseStatusBody_def
      retry_after_header_def Let_def)

text \<open>
  Claim C6, as the code has it. When \<^verbatim>\<open>sendOnce\<close> returns no error and \<^verbatim>\<open>Ok\<close> is true,
  the transport has answered and the body was decoded without error; on the legacy
  protocol the status was 200, and on the v1 protocol a status other than 200 came with
  an empty \<^verbatim>\<open>error.message\<close>. On the legacy protocol nothing more is needed: a
  status-200 body that decodes gives \<^verbatim>\<open>Ok = true\<close> whatever failure count and results
  it holds. Both hold for \<^verbatim>\<open>sendOnce\<close> of either file.
\<close>

theorem Ok_after_answer_and_decoding:
  "(sendOnce W this = Returns st None \<and> Ok st \<longrightarrow>
      (\<exists>response body.
          if UseV1Api this
          then v1_exchange W this response body \<and>
               (\<exists>v1Resp. json_Unmarshal_v1 W body = Inr v1Resp \<and>
                  (RespStatusCode response \<noteq> 200 \<longrightarrow>
                     FcmV1Error.Message (Error v1Resp) = ''''))
          else legacy_exchange W this response body \<and> RespStatusCode response = 200 \<and>
               fst (json_Unmarshal_status W body
                      ((new_FcmResponseStatus '''')
                         \<lparr>StatusCode := 200,
                          RetryAfter := RespHeaderGet response ''Retry-After''\<rparr>)) = None))
   \<and> (sendOnce_fcm_go W' this' = Returns st' None \<and> Ok st' \<longrightarrow>
      (\<exists>response body.
          legacy_exchange W' this' response body \<and> RespStatusCode response = 200 \<and>
          fst (json_Unmarshal_status W' body
                 ((new_FcmResponseStatus VNil)
                    \<lparr>StatusCode := 200,
                     RetryAfter := RespHeaderGet response ''Retry-After''\<rparr>)) = None))
   \<and> (\<not> UseV1Api this \<and> legacy_exchange W this response body \<and>
       RespStatusCode response = 200 \<and>
       json_Unmarshal_status W body
         ((new_FcmResponseStatus '''')
            \<lparr>StatusCode := 200,
             RetryAfter := RespHeaderGet response ''Retry-After''\<rparr>) = (None, decoded)
      \<longrightarrow> sendOnce W this = Returns (decoded\<lparr>Ok := True\<rparr>) None)
   \<and> (legacy_exchange W' this' response' body' \<and>
       RespStatusCode response' = 200 \<and>
       json_Unmarshal_status W' body'
         ((new_FcmResponseStatus VNil)
            \<lparr>StatusCode := 200,
             RetryAfter := RespHeaderGet response' ''Retry-After''\<rparr>) = (None, decoded')
      \<longrightarrow> sendOnce_fcm_go W' this' = Returns (decoded'\<lparr>Ok := True\<rparr>) None)"
  using sendOnce_Ok_only_if [of W this st] sendOnce_fcm_go_Ok_only_if [of W' this' st']
    sendOnce_legacy_200 [of this W response body decoded]
    sendOnce_fcm_go_200 [of W' this' response' body' decoded']
  by blast

text \<open>
  Claim C6 as stated fails: a legacy response with status 200 whose body reports one
  failed target (\<^verbatim>\<open>"failure":1\<close> and a result with an \<^verbatim>\<open>"error"\<close> key) is returned with
  \<^verbatim>\<open>Ok = true\<close>.
\<close>

theorem legacy_failure_returned_Ok:
  \<open>sendOnce
     (sample_world
        (sample_response 200
           ''{"success":0,"failure":1,"results":[{"error":"InvalidRegistration"}]}'')
        (Inl UnmarshalError) decode_failure)
     sample_legacy_client =
   Returns \<lparr>Ok = True, StatusCode = 200, MulticastId = 0, Success = 0, Fail = 1,
            Canonical_ids = 0, Results = [[(''error'', ''InvalidRegistration'')]],
            MsgId = 0, Err = '''', RetryAfter = ''''\<rparr> None\<close>
  by (subst sendOnce_legacy_answered [OF sample_clients_flags(2) sample_legacy_exchange])
     (simp add: parseStatusBody_def new_FcmResponseStatus_def Let_def sample_world_def
        sample_response_def retry_after_header_def decode_failure_def)

text \<open>
  The same legacy response, sent through \<^verbatim>\<open>sendOnce\<close> of each file: the transport
  answered with status 200, the body decoded, and \<^verbatim>\<open>Ok\<close> is true next to \<^verbatim>\<open>Fail = 1\<close>.
\<close>

theorem Ok_after_answer_and_decoding_witness:
  "sendOnce
     (sample_world (sample_response 200 ''{}'') (Inl UnmarshalError) decode_failure)
     sample_legacy_client =
   Returns \<lparr>Ok = True, StatusCode = 200, MulticastId = 0, Success = 0, Fail = 1,
            Canonical_ids = 0, Results = [[(''error'', ''InvalidRegistration'')]],
            MsgId = 0, Err = '''', RetryAfter = ''''\<rparr> None
   \<and> sendOnce_fcm_go
     (sample_world (sample_response 200 ''{}'') (Inl UnmarshalError) decode_failure)
     sample_fcm_go_client =
   Returns \<lparr>Ok = True, StatusCode = 200, MulticastId = 0, Success = 0, Fail = 1,
            Canonical_ids = 0, Results = [[(''error'', ''InvalidRegistration'')]],
            MsgId = 0, Err = VNil, RetryAfter = ''''\<rparr> None
   \<and> (\<exists>response body.
         legacy_exchange
           (sample_world (sample_response 200 ''{}'') (Inl UnmarshalError)
              (decode_failure :: string FcmResponseStatus \<Rightarrow> _))
           sample_legacy_client response body \<and>
         RespStatusCode response = 200)
   \<and> (\<exists>response body.
         legacy_exchange
           (sample_world (sample_response 200 ''{}'') (Inl UnmarshalError)
              (decode_failure :: int go_value FcmResponseStatus \<Rightarrow> _))
           sample_fcm_go_client response body \<and>
         RespStatusCode response = 200)"
proof -
  let ?R = "sample_response 200 ''{}''"
  let ?Ws = "sample_world ?R (Inl UnmarshalError)
               (decode_failure :: string FcmResponseStatus \<Rightarrow> _)"
  let ?Wg = "sample_world ?R (Inl UnmarshalError)
               (decode_failure :: int go_value FcmResponseStatus \<Rightarrow> _)"
  let ?Ds = "\<lparr>Ok = False, StatusCode = 200, MulticastId = 0, Success = 0, Fail = 1,
              Canonical_ids = 0, Results = [[(''error'', ''InvalidRegistration'')]],
              MsgId = 0, Err = '''', RetryAfter = ''''\<rparr>"
  let ?Dg = "\<lparr>Ok = False, StatusCode = 200, MulticastId = 0, Success = 0, Fail = 1,
              Canonical_ids = 0, Results = [[(''error'', ''InvalidRegistration'')]],
              MsgId = 0, Err = (VNil :: int go_value), RetryAfter = ''''\<rparr>"
  note T = Ok_after_answer_and_decoding
      [where W = ?Ws and this = sample_legacy_client and response = ?R and body = "''{}''"
         and decoded = ?Ds and st = "?Ds\<lparr>Ok := True\<rparr>"
         and W' = ?Wg and this' = sample_fcm_go_client and response' = ?R
         and body' = "''{}''" and decoded' = ?Dg and st' = "?Dg\<lparr>Ok := True\<rparr>"]
  have code: "RespStatusCode ?R = 200" "RespHeaderGet ?R h = ''''" for h
    by (simp_all add: sample_response_def)
  have exs: "legacy_exchange ?Ws sample_legacy_client ?R ''{}''"
    by (rule sample_legacy_exchange)
  have exg: "legacy_exchange ?Wg sample_fcm_go_client ?R ''{}''"
    by (rule sample_fcm_go_exchange)
  have decs: "json_Unmarshal_status ?Ws ''{}''
                ((new_FcmResponseStatus '''')\<lparr>StatusCode := 200, RetryAfter := ''''\<rparr>)
              = (None, ?Ds)"
    by (simp add: sample_world_def decode_failure_def new_FcmResponseStatus_def)
  have decg: "json_Unmarshal_status ?Wg ''{}''
                ((new_FcmResponseStatus VNil)\<lparr>StatusCode := 200, RetryAfter := ''''\<rparr>)
              = (None, ?Dg)"
    by (simp add: sample_world_def decode_failure_def new_FcmResponseStatus_def)
  have rs: "sendOnce ?Ws sample_legacy_client = Returns (?Ds\<lparr>Ok := True\<rparr>) None"
    using T by (simp add: code exs decs sample_clients_flags(2))
  have rg: "sendOnce_fcm_go ?Wg sample_fcm_go_client = Returns (?Dg\<lparr>Ok := True\<rparr>) None"
    using T by (simp add: code exg decg)
  have os: "\<exists>response body.
              legacy_exchange ?Ws sample_legacy_client response body \<and>
              RespStatusCode response = 200"
    using T rs by (simp add: sample_clients_flags(2)) blast
  have og: "\<exists>response body.
              legacy_exchange ?Wg sample_fcm_go_client response body \<and>
              RespStatusCode response = 200"
    using T rg by simp blast
  from rs rg os og show ?thesis by simp
qed

section \<open>Payload translator: properties\<close>

text \<open>The two definitions by cases on the list of entries.\<close>

lemma flattenMap_Nil: "flattenMap L prefix [] output = output"
  by (subst flattenMap.simps) simp







lemma convert_data:
  "m_data (message (convertToV1Message L this)) =
     (flattenMap L '''' (case Data (Message this) of VMap m \<Rightarrow> m | _ \<Rightarrow> []) Map.empty)
       (''data'' \<mapsto>
          (case json_Marshal L (VMap (case Data (Message this) of VMap m \<Rightarrow> m | _ \<Rightarrow> [])) of
             Inr bytes \<Rightarrow> bytes
           | Inl err \<Rightarrow> ''{}''))"
  "a_data (m_android (message (convertToV1Message L this))) =
     m_data (message (convertToV1Message L this))"
  by (simp_all add: convertToV1Message_def Let_def)




text \<open>
  Claim C10. When the \<^verbatim>\<open>Data\<close> of the message is not a \<^verbatim>\<open>map[string]interface{}\<close>, and the
  JSON library writes the empty map as \<^verbatim>\<open>{}\<close>, the map attached as \<^verbatim>\<open>message.data\<close> and
  as \<^verbatim>\<open>message.android.data\<close> has the one entry \<^verbatim>\<open>"data"\<close>, bound to \<^verbatim>\<open>"{}"\<close>: nothing of
  the payload is left in it. The translator has no error to return.
\<close>

theorem non_map_data_is_dropped:
  "(\<forall>m. Data (Message this) \<noteq> VMap m) \<and>
   (\<forall>bytes. json_Marshal L (VMap []) = Inr bytes \<longrightarrow> bytes = ''{}'') \<longrightarrow>
     m_data (message (convertToV1Message L this)) = [''data'' \<mapsto> ''{}''] \<and>
     a_data (m_android (message (convertToV1Message L this))) = [''data'' \<mapsto> ''{}'']"
proof (intro impI, elim conjE)
  assume no_map: "\<forall>m. Data (Message this) \<noteq> VMap m"
     and empty: "\<forall>bytes. json_Marshal L (VMap []) = Inr bytes \<longrightarrow> bytes = ''{}''"
  have data: "(case Data (Message this) of VMap m \<Rightarrow> m | _ \<Rightarrow> []) = []"
    using no_map by (cases "Data (Message this)") simp_all
  have json: "(case json_Marshal L (VMap []) of Inr bytes \<Rightarrow> bytes | Inl err \<Rightarrow> ''{}'') = ''{}''"
    using empty by (cases "json_Marshal L (VMap [])") simp_all
  show "m_data (message (convertToV1Message L this)) = [''data'' \<mapsto> ''{}''] \<and>
        a_data (m_android (message (convertToV1Message L this))) = [''data'' \<mapsto> ''{}'']"
    by (simp add: convert_data data json flattenMap_Nil)
qed

text \<open>
  The payloads the claim names: \<^verbatim>\<open>nil\<close> (a fresh client), the typed map that
  \<^verbatim>\<open>NewFcmTopicMsg\<close> stores, and a list.
\<close>

theorem non_map_data_is_dropped_witness:
  "m_data (message (convertToV1Message sample_lib
      (NewFcmClient ''key'' new_GcmCredentialsV2 :: int FcmClientV1))) = [''data'' \<mapsto> ''{}'']
   \<and> m_data (message (convertToV1Message sample_lib
      (NewFcmTopicMsg ''news'' [(''k'', ''v'')]
         (NewFcmClient ''key'' new_GcmCredentialsV2 :: int FcmClientV1)))) = [''data'' \<mapsto> ''{}'']
   \<and> a_data (m_android (message (convertToV1Message sample_lib
      (SetMsgData (VSlice [VString ''x''])
         (NewFcmClient ''key'' new_GcmCredentialsV2 :: int FcmClientV1))))) = [''data'' \<mapsto> ''{}'']"
proof -
  have lib: "\<forall>bytes. json_Marshal sample_lib (VMap []) = Inr bytes \<longrightarrow> bytes = ''{}''"
    by (simp add: sample_lib_def)
  have d1: "\<forall>m. Data (Message (NewFcmClient ''key'' new_GcmCredentialsV2 :: int FcmClientV1))
              \<noteq> VMap m"
    by (simp add: NewFcmClient_def new_FcmMsg_def Let_def)
  have d2: "\<forall>m. Data (Message (NewFcmTopicMsg ''news'' [(''k'', ''v'')]
               (NewFcmClient ''key'' new_GcmCredentialsV2 :: int FcmClientV1))) \<noteq> VMap m"
    by (simp add: NewFcmTopicMsg_def NewFcmMsgTo_def)
  have d3: "\<forall>m. Data (Message (SetMsgData (VSlice [VString ''x''])
               (NewFcmClient ''key'' new_GcmCredentialsV2 :: int FcmClientV1))) \<noteq> VMap m"
    by (simp add: SetMsgData_def)
  show ?thesis
    using non_map_data_is_dropped [THEN mp, OF conjI [OF d1 lib]]
      non_map_data_is_dropped [THEN mp, OF conjI [OF d2 lib]]
      non_map_data_is_dropped [THEN mp, OF conjI [OF d3 lib]]
    by simp
qed




end
